theory Spec2Isabelle
  imports Complex_Main "HOL-Library.Word"
begin

section \<open>Data model of \<^verbatim>\<open>src/main.ts\<close>\<close>

text \<open>
  A JavaScript \<^verbatim>\<open>number\<close> that the handlers below keep finite is modelled as a real, and
  every theorem about a function that divides reals states that the divisor is not zero.
  The crop rectangle is different: \<^verbatim>\<open>handleCropDrag\<close> divides by the target aspect and can
  store \<^verbatim>\<open>NaN\<close>, so its four numbers are of the type \<open>jsnum\<close>, a real or one of
  \<^verbatim>\<open>Infinity\<close>, \<^verbatim>\<open>-Infinity\<close> and \<^verbatim>\<open>NaN\<close>. The rounding of IEEE doubles and the
  negative zero are outside the model: a zero is the positive zero.
  A value of type \<^verbatim>\<open>T | null\<close> is an option.
\<close>

subsection \<open>Numbers with the non-finite values\<close>

datatype jsnum = Fin real | PosInf | NegInf | NaN

text \<open>
  The arithmetic and the comparisons of JavaScript on these values. Every operation
  with a \<^verbatim>\<open>NaN\<close> operand gives \<^verbatim>\<open>NaN\<close>, and every comparison with it is false.
\<close>

instantiation jsnum :: "{zero, one, plus, uminus, minus, times, inverse, ord}"
begin

definition zero_jsnum :: jsnum where
  "zero_jsnum = Fin 0"

definition one_jsnum :: jsnum where
  "one_jsnum = Fin 1"

fun plus_jsnum :: "jsnum \<Rightarrow> jsnum \<Rightarrow> jsnum" where
  "plus_jsnum NaN _ = NaN"
| "plus_jsnum _ NaN = NaN"
| "plus_jsnum (Fin a) (Fin b) = Fin (a + b)"
| "plus_jsnum PosInf NegInf = NaN"
| "plus_jsnum NegInf PosInf = NaN"
| "plus_jsnum PosInf _ = PosInf"
| "plus_jsnum _ PosInf = PosInf"
| "plus_jsnum NegInf _ = NegInf"
| "plus_jsnum _ NegInf = NegInf"

fun uminus_jsnum :: "jsnum \<Rightarrow> jsnum" where
  "uminus_jsnum (Fin a) = Fin (- a)"
| "uminus_jsnum PosInf = NegInf"
| "uminus_jsnum NegInf = PosInf"
| "uminus_jsnum NaN = NaN"

definition minus_jsnum :: "jsnum \<Rightarrow> jsnum \<Rightarrow> jsnum" where
  "minus_jsnum a b = a + (- b)"

fun times_jsnum :: "jsnum \<Rightarrow> jsnum \<Rightarrow> jsnum" where
  "times_jsnum NaN _ = NaN"
| "times_jsnum _ NaN = NaN"
| "times_jsnum (Fin a) (Fin b) = Fin (a * b)"
| "times_jsnum (Fin a) PosInf = (if a = 0 then NaN else if a > 0 then PosInf else NegInf)"
| "times_jsnum (Fin a) NegInf = (if a = 0 then NaN else if a > 0 then NegInf else PosInf)"
| "times_jsnum PosInf (Fin b) = (if b = 0 then NaN else if b > 0 then PosInf else NegInf)"
| "times_jsnum NegInf (Fin b) = (if b = 0 then NaN else if b > 0 then NegInf else PosInf)"
| "times_jsnum PosInf PosInf = PosInf"
| "times_jsnum PosInf NegInf = NegInf"
| "times_jsnum NegInf PosInf = NegInf"
| "times_jsnum NegInf NegInf = PosInf"

fun divide_jsnum :: "jsnum \<Rightarrow> jsnum \<Rightarrow> jsnum" where
  "divide_jsnum NaN _ = NaN"
| "divide_jsnum _ NaN = NaN"
| "divide_jsnum (Fin a) (Fin b) =
     (if b \<noteq> 0 then Fin (a / b)
      else if a = 0 then NaN else if a > 0 then PosInf else NegInf)"
| "divide_jsnum (Fin a) PosInf = Fin 0"
| "divide_jsnum (Fin a) NegInf = Fin 0"
| "divide_jsnum PosInf (Fin b) = (if b \<ge> 0 then PosInf else NegInf)"
| "divide_jsnum NegInf (Fin b) = (if b \<ge> 0 then NegInf else PosInf)"
| "divide_jsnum _ _ = NaN"

definition inverse_jsnum :: "jsnum \<Rightarrow> jsnum" where
  "inverse_jsnum a = divide (Fin 1) a"

fun less_jsnum :: "jsnum \<Rightarrow> jsnum \<Rightarrow> bool" where
  "less_jsnum NaN _ = False"
| "less_jsnum _ NaN = False"
| "less_jsnum (Fin a) (Fin b) = (a < b)"
| "less_jsnum _ NegInf = False"
| "less_jsnum NegInf _ = True"
| "less_jsnum PosInf _ = False"
| "less_jsnum _ PosInf = True"

definition less_eq_jsnum :: "jsnum \<Rightarrow> jsnum \<Rightarrow> bool" where
  "less_eq_jsnum a b = (a < b \<or> (a = b \<and> a \<noteq> NaN))"

instance ..

end

text \<open>\<^verbatim>\<open>Math.min\<close> and \<^verbatim>\<open>Math.max\<close> of two numbers.\<close>

definition Math_min :: "jsnum \<Rightarrow> jsnum \<Rightarrow> jsnum" where
  "Math_min a b = (if a = NaN \<or> b = NaN then NaN else if a < b then a else b)"

definition Math_max :: "jsnum \<Rightarrow> jsnum \<Rightarrow> jsnum" where
  "Math_max a b = (if a = NaN \<or> b = NaN then NaN else if a < b then b else a)"

subsection \<open>The state\<close>

record ImageInfo =
  width :: real
  height :: real
  data_url :: string

record PixelateStroke =
  points :: "(real \<times> real) list"
  radius :: real

datatype Tool = Select | Crop | Pixelate | Eyedropper

record AppState =
  sourcePath :: "string option"
  imageWidth :: real
  imageHeight :: real
  tool :: Tool
  zoom :: real
  panX :: real
  panY :: real
  cropX :: jsnum
  cropY :: jsnum
  cropW :: jsnum
  cropH :: jsnum
  targetWidth :: real
  targetHeight :: real
  lockAspect :: bool
  scaleMode :: string
  grayscale :: bool
  brightness :: real
  contrast :: real
  rotation :: real
  flipH :: bool
  flipV :: bool
  pixelateStrokes :: "PixelateStroke list"
  pixelateRedoStack :: "PixelateStroke list"
  pixelateBrushSize :: real
  pixelateBlockSize :: real
  isPixelatePainting :: bool
  currentStroke :: "PixelateStroke option"
  bgEnabled :: bool
  bgColor :: "real \<times> real \<times> real"
  bgTolerance :: real

text \<open>
  The module-level variables of \<^verbatim>\<open>main.ts\<close> next to \<^verbatim>\<open>state\<close>: the loaded image element
  (identified by its source URL) and the bookkeeping of the pan and crop drags.
\<close>

record App = AppState +
  loadedImage :: "string option"
  isDragging :: bool
  dragStartX :: real
  dragStartY :: real
  dragStartPanX :: real
  dragStartPanY :: real
  cropDragMode :: "string option"
  cropStartX :: real
  cropStartY :: real
  cropStartCropX :: jsnum
  cropStartCropY :: jsnum
  cropStartCropW :: jsnum
  cropStartCropH :: jsnum


subsection \<open>Requests to the image-processing back end\<close>

text \<open>
  The object literals passed to \<^verbatim>\<open>invoke\<close>. Their fields carry the prefixes \<open>ap_\<close> and
  \<open>ex_\<close> (and \<open>crop_\<close>, \<open>bg_\<close> for the nested objects), because several of them share a
  name with a field of \<^verbatim>\<open>AppState\<close>.
\<close>

record ApplyPayload =
  ap_source_path :: string
  ap_rotation :: real
  ap_flip_h :: bool
  ap_flip_v :: bool
  ap_grayscale :: bool
  ap_brightness :: real
  ap_contrast :: real
  ap_pixelate_strokes :: "PixelateStroke list"
  ap_pixelate_block_size :: real

record CropArg =
  crop_x :: jsnum
  crop_y :: jsnum
  crop_width :: jsnum
  crop_height :: jsnum

record BgRemoval =
  bg_enabled :: bool
  bg_color :: "real \<times> real \<times> real"
  bg_tolerance :: real

record ExportPayload =
  ex_source_path :: string
  ex_output_path :: string
  ex_output_format :: string
  ex_jpeg_quality :: real
  ex_target_width :: real
  ex_target_height :: real
  ex_crop :: "CropArg option"
  ex_rotation :: real
  ex_flip_h :: bool
  ex_flip_v :: bool
  ex_grayscale :: bool
  ex_brightness :: real
  ex_contrast :: real
  ex_pixelate_strokes :: "PixelateStroke list"
  ex_pixelate_block_size :: real
  ex_bg_removal :: "BgRemoval option"
  ex_mode :: string

datatype request =
    OpenImage string
  | ApplyEdits ApplyPayload
  | GetAppliedPath
  | ExportImage ExportPayload

subsection \<open>Observable effects of a handler\<close>

text \<open>
  What \<^verbatim>\<open>renderCanvas\<close> reads from the program state when it draws: the image, its
  transforms and filters, the stroke list handed to \<^verbatim>\<open>drawPixelatePreview\<close>, and the
  placement of the canvas. Two renderings of equal frames draw the same picture.
\<close>

record Frame =
  fr_image :: string
  fr_imageWidth :: real
  fr_imageHeight :: real
  fr_rotation :: real
  fr_flipH :: bool
  fr_flipV :: bool
  fr_grayscale :: bool
  fr_brightness :: real
  fr_contrast :: real
  fr_strokes :: "PixelateStroke list"
  fr_blockSize :: real
  fr_zoom :: real
  fr_panX :: real
  fr_panY :: real

text \<open>
  The calls of \<^verbatim>\<open>showToast\<close>, one constructor for each message of the handlers modelled
  here: \<open>NoAdjustments\<close> is \<^verbatim>\<open>"No adjustments to apply"\<close>, \<open>ApplyFailed e\<close> is
  \<^verbatim>\<open>"Apply failed: " + e\<close>, and so on.
\<close>

datatype toast =
    OpenFailed string
  | NoAdjustments
  | ApplyFailed string
  | AdjustmentsApplied
  | Exported string
  | ExportFailed string
  | ColorPicked "nat \<times> nat \<times> nat"

text \<open>
  A handler returns the new state and the effects it had, in order: a request sent with
  \<^verbatim>\<open>invoke\<close>, a drawing of the canvas, a toast, the start of an image load
  (\<^verbatim>\<open>img.src = ...\<close>). Writes to form widgets and to the style of the crop overlay are
  not modelled.
\<close>

datatype effect =
    Invoke request
  | Render Frame
  | ShowToast toast
  | ImgSrc string

subsection \<open>Pointer events\<close>

text \<open>
  A mouse event with the two attributes of its target that the handlers read
  (\<^verbatim>\<open>target.dataset.handle\<close> and \<^verbatim>\<open>target.id\<close>), and the bounding rectangle of the canvas
  that \<^verbatim>\<open>getBoundingClientRect\<close> returns when the event is handled.
\<close>

record MouseEvent =
  clientX :: real
  clientY :: real
  handle :: "string option"
  targetId :: string

record DOMRect =
  rect_left :: real
  rect_top :: real
  rect_width :: real
  rect_height :: real

section \<open>The handlers\<close>

text \<open>JavaScript truthiness of a \<^verbatim>\<open>string | null\<close> value.\<close>

definition truthy :: "string option \<Rightarrow> bool" where
  "truthy v = (case v of None \<Rightarrow> False | Some t \<Rightarrow> t \<noteq> [])"

text \<open>\<^verbatim>\<open>Math.round\<close>: the nearest integer, a tie going up.\<close>

definition Math_round :: "real \<Rightarrow> int" where
  "Math_round v = \<lfloor>v + 1 / 2\<rfloor>"

text \<open>\<^verbatim>\<open>s.includes(c)\<close> for a pattern of one character.\<close>

definition str_includes :: "string \<Rightarrow> char \<Rightarrow> bool" where
  "str_includes t c = (c \<in> set t)"

definition isRotated :: "App \<Rightarrow> bool" where
  "isRotated s = (rotation s = 90 \<or> rotation s = 270)"

subsection \<open>Rendering\<close>

definition frameOf :: "string \<Rightarrow> App \<Rightarrow> Frame" where
  "frameOf img s =
     \<lparr>fr_image = img, fr_imageWidth = imageWidth s, fr_imageHeight = imageHeight s,
      fr_rotation = rotation s, fr_flipH = flipH s, fr_flipV = flipV s,
      fr_grayscale = grayscale s, fr_brightness = brightness s, fr_contrast = contrast s,
      fr_strokes = pixelateStrokes s, fr_blockSize = pixelateBlockSize s,
      fr_zoom = zoom s, fr_panX = panX s, fr_panY = panY s\<rparr>"

definition renderCanvas :: "App \<Rightarrow> effect list" where
  "renderCanvas s = (case loadedImage s of None \<Rightarrow> [] | Some img \<Rightarrow> [Render (frameOf img s)])"

subsection \<open>Zoom\<close>

definition setZoom :: "real \<Rightarrow> App \<Rightarrow> App \<times> effect list" where
  "setZoom z s = (let s' = s\<lparr>zoom := max (1 / 10) (min 5 z)\<rparr> in (s', renderCanvas s'))"

text \<open>\<open>cw\<close> and \<open>ch\<close> are the client width and height of the canvas container.\<close>

definition zoomFit :: "real \<Rightarrow> real \<Rightarrow> App \<Rightarrow> App \<times> effect list" where
  "zoomFit cw ch s =
     (if loadedImage s = None then (s, [])
      else
        let iw = (if isRotated s then imageHeight s else imageWidth s);
            ih = (if isRotated s then imageWidth s else imageHeight s);
            scale = min ((cw - 40) / iw) (min ((ch - 40) / ih) 1)
        in setZoom scale (s\<lparr>panX := 0, panY := 0\<rparr>))"


subsection \<open>Opening an image\<close>

text \<open>
  \<^verbatim>\<open>loadImage\<close> up to the end of its \<^verbatim>\<open>try\<close> block. \<open>resp\<close> is the answer of the back end
  to \<^verbatim>\<open>open_image\<close>: \<open>Inl e\<close> when the call throws \<open>e\<close>. The call of \<^verbatim>\<open>addToRecents\<close>
  does not touch the state and is left out.
\<close>

definition loadImage :: "string \<Rightarrow> string + ImageInfo \<Rightarrow> App \<Rightarrow> App \<times> effect list" where
  "loadImage path resp s =
     (case resp of
        Inl e \<Rightarrow> (s, [Invoke (OpenImage path), ShowToast (OpenFailed e)])
      | Inr info \<Rightarrow>
          (s\<lparr>sourcePath := Some path,
             imageWidth := width info,
             imageHeight := height info,
             rotation := 0,
             flipH := False,
             flipV := False,
             grayscale := False,
             brightness := 0,
             contrast := 0,
             pixelateStrokes := [],
             pixelateRedoStack := [],
             cropX := 0,
             cropY := 0,
             cropW := 1,
             cropH := 1,
             targetWidth := width info,
             targetHeight := height info\<rparr>,
           [Invoke (OpenImage path), ImgSrc (data_url info)]))"

text \<open>The \<^verbatim>\<open>img.onload\<close> callback that \<^verbatim>\<open>loadImage\<close> installs.\<close>

definition loadImage_onload :: "ImageInfo \<Rightarrow> real \<Rightarrow> real \<Rightarrow> App \<Rightarrow> App \<times> effect list" where
  "loadImage_onload info cw ch s =
     (let s1 = s\<lparr>loadedImage := Some (data_url info)\<rparr>;
          (s2, fx) = zoomFit cw ch s1
      in (s2, fx @ renderCanvas s2))"

subsection \<open>Pointer handlers\<close>

definition getCanvasCoords :: "MouseEvent \<Rightarrow> DOMRect \<Rightarrow> App \<Rightarrow> real \<times> real" where
  "getCanvasCoords e rect s =
     (let dw = (if isRotated s then imageHeight s else imageWidth s);
          dh = (if isRotated s then imageWidth s else imageHeight s);
          scaleX = dw / rect_width rect;
          scaleY = dh / rect_height rect;
          x = (clientX e - rect_left rect) * scaleX;
          y = (clientY e - rect_top rect) * scaleY
      in (x / dw, y / dh))"

definition inBounds :: "real \<times> real \<Rightarrow> bool" where
  "inBounds p = (case p of (nx, ny) \<Rightarrow> nx \<ge> 0 \<and> nx \<le> 1 \<and> ny \<ge> 0 \<and> ny \<le> 1)"

text \<open>
  \<^verbatim>\<open>pickColor\<close>; \<open>pixel\<close> is what \<^verbatim>\<open>getImageData(x, y, 1, 1)\<close> reads from the canvas at the
  position computed from the event. \<^verbatim>\<open>renderCanvas\<close> has set the size of the canvas to the
  displayed size of the image.
\<close>

definition pickColor ::
  "MouseEvent \<Rightarrow> DOMRect \<Rightarrow> nat \<times> nat \<times> nat \<Rightarrow> App \<Rightarrow> App \<times> effect list" where
  "pickColor e rect pixel s =
     (if loadedImage s = None then (s, [])
      else
        let cvw = (if isRotated s then imageHeight s else imageWidth s);
            cvh = (if isRotated s then imageWidth s else imageHeight s);
            x = Math_round ((clientX e - rect_left rect) / rect_width rect * cvw);
            y = Math_round ((clientY e - rect_top rect) / rect_height rect * cvh)
        in if x \<ge> 0 \<and> of_int x < cvw \<and> y \<ge> 0 \<and> of_int y < cvh
           then (case pixel of (r, g, b) \<Rightarrow>
                   (s\<lparr>bgColor := (real r, real g, real b)\<rparr>, [ShowToast (ColorPicked (r, g, b))]))
           else (s, []))"

definition onCanvasMouseDown ::
  "MouseEvent \<Rightarrow> DOMRect \<Rightarrow> nat \<times> nat \<times> nat \<Rightarrow> App \<Rightarrow> App \<times> effect list" where
  "onCanvasMouseDown e rect pixel s =
     (if loadedImage s = None then (s, [])
      else if tool s = Select then
        (s\<lparr>isDragging := True,
           dragStartX := clientX e,
           dragStartY := clientY e,
           dragStartPanX := panX s,
           dragStartPanY := panY s\<rparr>, [])
      else if tool s = Pixelate then
        (let p = getCanvasCoords e rect s in
         if inBounds p then
           (let maxDim = max (if isRotated s then imageHeight s else imageWidth s)
                             (if isRotated s then imageWidth s else imageHeight s)
            in (s\<lparr>isPixelatePainting := True,
                   currentStroke := Some \<lparr>points = [p], radius = pixelateBrushSize s / maxDim\<rparr>,
                   pixelateRedoStack := []\<rparr>, []))
         else (s, []))
      else if tool s = Eyedropper then pickColor e rect pixel s
      else
        (let mode = (if truthy (handle e) then handle e
                     else if targetId e = ''crop-rect'' then Some ''move''
                     else None)
         in case mode of
              None \<Rightarrow> (s, [])
            | Some m \<Rightarrow>
                (s\<lparr>cropDragMode := Some m,
                   cropStartX := clientX e,
                   cropStartY := clientY e,
                   cropStartCropX := cropX s,
                   cropStartCropY := cropY s,
                   cropStartCropW := cropW s,
                   cropStartCropH := cropH s\<rparr>, [])))"

subsection \<open>Crop drag\<close>

text \<open>
  The rectangle of \<^verbatim>\<open>handleCropDrag\<close> before its clamp: the snapshot taken at the start of
  the drag, moved or resized by the deltas, then forced to the target aspect when the
  aspect is locked. The result is \<open>(x, y, w, h)\<close>. With a target height of zero the
  aspect is infinite (or \<^verbatim>\<open>NaN\<close> when the target width is zero too).
\<close>

definition dragRect :: "string \<Rightarrow> jsnum \<Rightarrow> jsnum \<Rightarrow> App \<Rightarrow> jsnum \<times> jsnum \<times> jsnum \<times> jsnum" where
  "dragRect mode dx dy s =
     (let x0 = cropStartCropX s; y0 = cropStartCropY s;
          w0 = cropStartCropW s; h0 = cropStartCropH s;
          (x1, y1, w1, h1) =
            (if mode = ''move'' then (x0 + dx, y0 + dy, w0, h0)
             else
               let (xa, wa) = (if str_includes mode (CHR ''w'') then (x0 + dx, w0 - dx) else (x0, w0));
                   wb = (if str_includes mode (CHR ''e'') then wa + dx else wa);
                   (ya, ha) = (if str_includes mode (CHR ''n'') then (y0 + dy, h0 - dy) else (y0, h0));
                   hb = (if str_includes mode (CHR ''s'') then ha + dy else ha)
               in (xa, ya, wb, hb))
      in if lockAspect s \<and> mode \<noteq> ''move'' then
           (let aspect = Fin (targetWidth s) / Fin (targetHeight s) in
            if str_includes mode (CHR ''e'') \<or> str_includes mode (CHR ''w'')
            then (x1, y1, w1, w1 / aspect)
            else (x1, y1, h1 * aspect, h1))
         else (x1, y1, w1, h1))"

text \<open>
  \<^verbatim>\<open>handleCropDrag\<close>. The source reads the mode from the variable \<^verbatim>\<open>cropDragMode\<close>, which
  its only caller has tested; here the caller passes it.
\<close>

definition handleCropDrag :: "string \<Rightarrow> jsnum \<Rightarrow> jsnum \<Rightarrow> App \<Rightarrow> App" where
  "handleCropDrag mode dx dy s =
     (case dragRect mode dx dy s of (x, y, w, h) \<Rightarrow>
        let w' = Math_max (Fin (2 / 100)) (Math_min 1 w);
            h' = Math_max (Fin (2 / 100)) (Math_min 1 h);
            x' = Math_max 0 (Math_min (1 - w') x);
            y' = Math_max 0 (Math_min (1 - h') y)
        in s\<lparr>cropX := x', cropY := y', cropW := w', cropH := h'\<rparr>)"

definition onCanvasMouseMove :: "MouseEvent \<Rightarrow> DOMRect \<Rightarrow> App \<Rightarrow> App \<times> effect list" where
  "onCanvasMouseMove e rect s =
     (if tool s = Select \<and> isDragging s then
        (let s' = s\<lparr>panX := dragStartPanX s + (clientX e - dragStartX s),
                     panY := dragStartPanY s + (clientY e - dragStartY s)\<rparr>
         in (s', renderCanvas s'))
      else if tool s = Pixelate \<and> isPixelatePainting s \<and> currentStroke s \<noteq> None then
        (case currentStroke s of
           None \<Rightarrow> (s, [])
         | Some c \<Rightarrow>
             let p = getCanvasCoords e rect s in
             if inBounds p then
               (let c' = c\<lparr>points := points c @ [p]\<rparr>;
                    s1 = s\<lparr>currentStroke := Some c'\<rparr>;
                    s2 = s1\<lparr>pixelateStrokes := pixelateStrokes s1 @ [c']\<rparr>;
                    fx = renderCanvas s2;
                    s3 = s2\<lparr>pixelateStrokes := butlast (pixelateStrokes s2)\<rparr>
                in (s3, fx))
             else (s, []))
      else if tool s = Crop \<and> truthy (cropDragMode s) then
        (case cropDragMode s of
           None \<Rightarrow> (s, [])
         | Some mode \<Rightarrow>
             let dx = Fin (clientX e - cropStartX s) / Fin (rect_width rect);
                 dy = Fin (clientY e - cropStartY s) / Fin (rect_height rect)
             in (handleCropDrag mode dx dy s, []))
      else (s, []))"

definition onCanvasMouseUp :: "App \<Rightarrow> App \<times> effect list" where
  "onCanvasMouseUp s =
     (let s1 = s\<lparr>isDragging := False\<rparr>;
          (s2, fx) =
            (case currentStroke s1 of
               Some c \<Rightarrow>
                 if isPixelatePainting s1 then
                   (let s' = s1\<lparr>pixelateStrokes := pixelateStrokes s1 @ [c],
                                 currentStroke := None,
                                 isPixelatePainting := False\<rparr>
                    in (s', renderCanvas s'))
                 else (s1, [])
             | None \<Rightarrow> (s1, []))
      in (s2\<lparr>cropDragMode := None\<rparr>, fx))"

subsection \<open>Undo and redo of strokes\<close>

text \<open>\<^verbatim>\<open>push\<close> appends at the end of the array and \<^verbatim>\<open>pop\<close> removes its last element.\<close>

definition undoStroke :: "App \<Rightarrow> App \<times> effect list" where
  "undoStroke s =
     (if length (pixelateStrokes s) > 0 then
        (let s' = s\<lparr>pixelateRedoStack := pixelateRedoStack s @ [last (pixelateStrokes s)],
                     pixelateStrokes := butlast (pixelateStrokes s)\<rparr>
         in (s', renderCanvas s'))
      else (s, []))"

definition redoStroke :: "App \<Rightarrow> App \<times> effect list" where
  "redoStroke s =
     (if length (pixelateRedoStack s) > 0 then
        (let s' = s\<lparr>pixelateStrokes := pixelateStrokes s @ [last (pixelateRedoStack s)],
                     pixelateRedoStack := butlast (pixelateRedoStack s)\<rparr>
         in (s', renderCanvas s'))
      else (s, []))"


subsection \<open>Export\<close>

text \<open>
  \<^verbatim>\<open>doExport\<close>: \<open>format\<close> and \<open>quality\<close> are read from the form, \<open>outputPath\<close> is the
  answer of the save dialog and \<open>resp\<close> the outcome of \<^verbatim>\<open>export_image\<close>. The state is
  only read.
\<close>

definition exportPayload :: "string \<Rightarrow> string \<Rightarrow> string \<Rightarrow> real \<Rightarrow> App \<Rightarrow> ExportPayload" where
  "exportPayload src out format quality s =
     \<lparr>ex_source_path = src,
      ex_output_path = out,
      ex_output_format = format,
      ex_jpeg_quality = quality,
      ex_target_width = targetWidth s,
      ex_target_height = targetHeight s,
      ex_crop =
        (if cropW s < 1 \<or> cropH s < 1 \<or> cropX s > 0 \<or> cropY s > 0
         then Some \<lparr>crop_x = cropX s, crop_y = cropY s,
                     crop_width = cropW s, crop_height = cropH s\<rparr>
         else None),
      ex_rotation = rotation s,
      ex_flip_h = flipH s,
      ex_flip_v = flipV s,
      ex_grayscale = grayscale s,
      ex_brightness = brightness s,
      ex_contrast = contrast s,
      ex_pixelate_strokes = pixelateStrokes s,
      ex_pixelate_block_size = pixelateBlockSize s,
      ex_bg_removal =
        (if bgEnabled s
         then Some \<lparr>bg_enabled = True, bg_color = bgColor s,
                     bg_tolerance = bgTolerance s / 100\<rparr>
         else None),
      ex_mode = scaleMode s\<rparr>"

definition doExport ::
  "string \<Rightarrow> real \<Rightarrow> string option \<Rightarrow> string + unit \<Rightarrow> App \<Rightarrow> effect list" where
  "doExport format quality outputPath resp s =
     (case sourcePath s of
        None \<Rightarrow> []
      | Some src \<Rightarrow>
          if src = [] then []
          else (case outputPath of
                  None \<Rightarrow> []
                | Some out \<Rightarrow>
                    if out = [] then []
                    else [Invoke (ExportImage (exportPayload src out format quality s)),
                          (case resp of
                             Inl e \<Rightarrow> ShowToast (ExportFailed e)
                           | Inr _ \<Rightarrow> ShowToast (Exported out))]))"

subsection \<open>Apply\<close>

definition hasEdits :: "App \<Rightarrow> bool" where
  "hasEdits s =
     (rotation s \<noteq> 0 \<or> flipH s \<or> flipV s \<or> grayscale s \<or>
      brightness s \<noteq> 0 \<or> contrast s \<noteq> 0 \<or> length (pixelateStrokes s) > 0)"

definition applyPayload :: "string \<Rightarrow> App \<Rightarrow> ApplyPayload" where
  "applyPayload src s =
     \<lparr>ap_source_path = src,
      ap_rotation = rotation s,
      ap_flip_h = flipH s,
      ap_flip_v = flipV s,
      ap_grayscale = grayscale s,
      ap_brightness = brightness s,
      ap_contrast = contrast s,
      ap_pixelate_strokes = pixelateStrokes s,
      ap_pixelate_block_size = pixelateBlockSize s\<rparr>"

text \<open>
  \<^verbatim>\<open>applyEdits\<close>: \<open>r1\<close> is the answer to \<^verbatim>\<open>apply_edits\<close> and \<open>r2\<close> the answer to
  \<^verbatim>\<open>get_applied_path\<close>, each \<open>Inl e\<close> when the call throws \<open>e\<close>. The second request is
  sent only after the first has succeeded, and the state is written only after both.
\<close>

definition applyEdits :: "string + ImageInfo \<Rightarrow> string + string \<Rightarrow> App \<Rightarrow> App \<times> effect list" where
  "applyEdits r1 r2 s =
     (case sourcePath s of
        None \<Rightarrow> (s, [])
      | Some src \<Rightarrow>
          if src = [] then (s, [])
          else if \<not> hasEdits s then (s, [ShowToast NoAdjustments])
          else (case r1 of
                  Inl e \<Rightarrow> (s, [Invoke (ApplyEdits (applyPayload src s)), ShowToast (ApplyFailed e)])
                | Inr info \<Rightarrow>
                    (case r2 of
                       Inl e \<Rightarrow>
                         (s, [Invoke (ApplyEdits (applyPayload src s)), Invoke GetAppliedPath,
                              ShowToast (ApplyFailed e)])
                     | Inr appliedPath \<Rightarrow>
                         (s\<lparr>sourcePath := Some appliedPath,
                            imageWidth := width info,
                            imageHeight := height info,
                            rotation := 0,
                            flipH := False,
                            flipV := False,
                            grayscale := False,
                            brightness := 0,
                            contrast := 0,
                            pixelateStrokes := [],
                            pixelateRedoStack := []\<rparr>,
                          [Invoke (ApplyEdits (applyPayload src s)), Invoke GetAppliedPath,
                           ImgSrc (data_url info), ShowToast AdjustmentsApplied]))))"

text \<open>The \<^verbatim>\<open>img.onload\<close> callback that \<^verbatim>\<open>applyEdits\<close> installs.\<close>

definition applyEdits_onload :: "ImageInfo \<Rightarrow> App \<Rightarrow> App \<times> effect list" where
  "applyEdits_onload info s =
     (let s' = s\<lparr>loadedImage := Some (data_url info)\<rparr> in (s', renderCanvas s'))"

text \<open>The requests among the effects of a handler.\<close>

fun requests :: "effect list \<Rightarrow> request list" where
  "requests [] = []"
| "requests (Invoke r # fx) = r # requests fx"
| "requests (_ # fx) = requests fx"

subsection \<open>Block averaging\<close>

text \<open>
  The body of the two block loops of \<^verbatim>\<open>drawPixelatePreview\<close>, for one cell
  \<open>[bx, bx2) \<times> [by, by2)\<close> of a surface \<open>dw\<close> pixels wide. \<open>data\<close> is the
  \<^verbatim>\<open>Uint8ClampedArray\<close> of the surface, four bytes for each pixel.

  The indices \<^verbatim>\<open>(py * dw + px) * 4\<close> that both pixel loops of the body visit, in order:
\<close>

definition cellPixels :: "nat \<Rightarrow> nat \<Rightarrow> nat \<Rightarrow> nat \<Rightarrow> nat \<Rightarrow> nat list" where
  "cellPixels dw bx by bx2 by2 =
     concat (map (\<lambda>py. map (\<lambda>px. (py * dw + px) * 4) [bx..<bx2]) [by..<by2])"

text \<open>
  \<^verbatim>\<open>acc += data[i]\<close>: a read past the end of the array gives \<^verbatim>\<open>undefined\<close> and turns the
  sum into \<^verbatim>\<open>NaN\<close>, which is \<open>None\<close> here and stays so.
\<close>

definition addByte :: "nat option \<Rightarrow> 8 word list \<Rightarrow> nat \<Rightarrow> nat option" where
  "addByte acc data i =
     (case acc of
        None \<Rightarrow> None
      | Some a \<Rightarrow> if i < length data then Some (a + unat (data ! i)) else None)"

text \<open>
  \<^verbatim>\<open>Math.round(acc / count)\<close>, then the store into the clamped byte array: \<^verbatim>\<open>NaN\<close> is
  stored as 0 and a value above 255 as 255.
\<close>

definition meanByte :: "nat option \<Rightarrow> nat \<Rightarrow> 8 word" where
  "meanByte acc count =
     (case acc of
        None \<Rightarrow> 0
      | Some a \<Rightarrow>
          let m = Math_round (real a / real count)
          in if m < 0 then 0 else if m > 255 then 255 else word_of_int m)"

text \<open>One round of the first pixel loop: the four channel sums and the pixel count.\<close>

definition sumStep ::
  "8 word list \<Rightarrow> nat \<Rightarrow> nat option \<times> nat option \<times> nat option \<times> nat option \<times> nat
     \<Rightarrow> nat option \<times> nat option \<times> nat option \<times> nat option \<times> nat" where
  "sumStep data idx acc =
     (case acc of (rr, gg, bb, aa, count) \<Rightarrow>
        (addByte rr data idx, addByte gg data (idx + 1),
         addByte bb data (idx + 2), addByte aa data (idx + 3), count + 1))"

definition cellSums ::
  "8 word list \<Rightarrow> nat list \<Rightarrow> nat option \<times> nat option \<times> nat option \<times> nat option \<times> nat" where
  "cellSums data idxs = fold (sumStep data) idxs (Some 0, Some 0, Some 0, Some 0, 0)"

text \<open>
  One round of the second pixel loop. A store past the end of a typed array is ignored,
  as \<open>list_update\<close> does.
\<close>

definition fillStep :: "8 word \<Rightarrow> 8 word \<Rightarrow> 8 word \<Rightarrow> 8 word \<Rightarrow> nat \<Rightarrow> 8 word list \<Rightarrow> 8 word list" where
  "fillStep r g b a idx d = d[idx := r, idx + 1 := g, idx + 2 := b, idx + 3 := a]"

definition cellFill :: "8 word \<Rightarrow> 8 word \<Rightarrow> 8 word \<Rightarrow> 8 word \<Rightarrow> nat list \<Rightarrow> 8 word list \<Rightarrow> 8 word list" where
  "cellFill r g b a idxs data = fold (fillStep r g b a) idxs data"

definition averageCell :: "8 word list \<Rightarrow> nat \<Rightarrow> nat \<Rightarrow> nat \<Rightarrow> nat \<Rightarrow> nat \<Rightarrow> 8 word list" where
  "averageCell data dw bx by bx2 by2 =
     (let idxs = cellPixels dw bx by bx2 by2 in
      case cellSums data idxs of (rr, gg, bb, aa, count) \<Rightarrow>
        if count > 0
        then cellFill (meanByte rr count) (meanByte gg count) (meanByte bb count)
                      (meanByte aa count) idxs data
        else data)"


subsection \<open>The program as a whole\<close>

text \<open>The initial values of \<^verbatim>\<open>state\<close> and of the module-level variables.\<close>

definition initialState :: App where
  "initialState =
     \<lparr>sourcePath = None, imageWidth = 0, imageHeight = 0, tool = Select,
      zoom = 1, panX = 0, panY = 0,
      cropX = Fin (1 / 10), cropY = Fin (1 / 10), cropW = Fin (8 / 10), cropH = Fin (8 / 10),
      targetWidth = 800, targetHeight = 600, lockAspect = False,
      scaleMode = ''scale_then_crop'',
      grayscale = False, brightness = 0, contrast = 0, rotation = 0,
      flipH = False, flipV = False,
      pixelateStrokes = [], pixelateRedoStack = [],
      pixelateBrushSize = 20, pixelateBlockSize = 10,
      isPixelatePainting = False, currentStroke = None,
      bgEnabled = False, bgColor = (0, 0, 0), bgTolerance = 30,
      loadedImage = None, isDragging = False,
      dragStartX = 0, dragStartY = 0, dragStartPanX = 0, dragStartPanY = 0,
      cropDragMode = None, cropStartX = 0, cropStartY = 0,
      cropStartCropX = 0, cropStartCropY = 0, cropStartCropW = 0, cropStartCropH = 0\<rparr>"

definition setTool :: "Tool \<Rightarrow> App \<Rightarrow> App \<times> effect list" where
  "setTool t s = (s\<lparr>tool := t\<rparr>, [])"

text \<open>The \<^verbatim>\<open>change\<close> listener of the grayscale checkbox.\<close>

definition onGrayscaleChange :: "bool \<Rightarrow> App \<Rightarrow> App \<times> effect list" where
  "onGrayscaleChange checked s = (let s' = s\<lparr>grayscale := checked\<rparr> in (s', renderCanvas s'))"

text \<open>
  \<^verbatim>\<open>a % b\<close> on numbers: the remainder has the sign of the dividend. It is used with
  \<open>b = 360\<close> only.
\<close>

definition js_rem :: "real \<Rightarrow> real \<Rightarrow> real" where
  "js_rem a b = a - b * of_int (if a / b < 0 then \<lceil>a / b\<rceil> else \<lfloor>a / b\<rfloor>)"

text \<open>The \<^verbatim>\<open>click\<close> listener of the rotate-right button.\<close>

definition onRotateRight :: "App \<Rightarrow> App \<times> effect list" where
  "onRotateRight s = (let s' = s\<lparr>rotation := js_rem (rotation s + 90) 360\<rparr> in (s', renderCanvas s'))"

text \<open>
  The events that \<^verbatim>\<open>initApp\<close> wires to the handlers above, each with what the handler
  reads from its environment. The pointer leaving the container is a \<open>MouseUp\<close>;
  \<open>Undo\<close> and \<open>Redo\<close> are the two buttons and the keyboard shortcuts of \<^verbatim>\<open>onKeyDown\<close>.
  The handlers run one at a time, in the order of the events.
\<close>

datatype event =
    OpenFile string "string + ImageInfo"
  | ImageLoaded ImageInfo real real
  | ToolClick Tool
  | GrayscaleChange bool
  | RotateRightClick
  | MouseDown MouseEvent DOMRect "nat \<times> nat \<times> nat"
  | MouseMove MouseEvent DOMRect
  | MouseUp
  | Undo
  | Redo
  | FitClick real real
  | ApplyClick "string + ImageInfo" "string + string"
  | AppliedImageLoaded ImageInfo

fun dispatch :: "event \<Rightarrow> App \<Rightarrow> App \<times> effect list" where
  "dispatch (OpenFile path resp) s = loadImage path resp s"
| "dispatch (ImageLoaded info cw ch) s = loadImage_onload info cw ch s"
| "dispatch (ToolClick t) s = setTool t s"
| "dispatch (GrayscaleChange b) s = onGrayscaleChange b s"
| "dispatch RotateRightClick s = onRotateRight s"
| "dispatch (MouseDown e rect pixel) s = onCanvasMouseDown e rect pixel s"
| "dispatch (MouseMove e rect) s = onCanvasMouseMove e rect s"
| "dispatch MouseUp s = onCanvasMouseUp s"
| "dispatch Undo s = undoStroke s"
| "dispatch Redo s = redoStroke s"
| "dispatch (FitClick cw ch) s = zoomFit cw ch s"
| "dispatch (ApplyClick r1 r2) s = applyEdits r1 r2 s"
| "dispatch (AppliedImageLoaded info) s = applyEdits_onload info s"

text \<open>The state after a sequence of events.\<close>

fun run :: "event list \<Rightarrow> App \<Rightarrow> App" where
  "run [] s = s"
| "run (ev # evs) s = run evs (fst (dispatch ev s))"


subsection \<open>A session used in the examples\<close>

text \<open>
  An 800 by 600 image opened in a container of 1000 by 800 pixels: the zoom is 1 and the
  canvas lies at (100, 100) in the container, which is taken to lie at the origin of the
  window.
\<close>

definition demoInfo :: ImageInfo where
  "demoInfo = \<lparr>width = 800, height = 600, data_url = ''data:demo''\<rparr>"

definition demoLoaded :: App where
  "demoLoaded = run [OpenFile ''a.png'' (Inr demoInfo), ImageLoaded demoInfo 1000 800] initialState"

definition demoRect :: DOMRect where
  "demoRect = \<lparr>rect_left = 100, rect_top = 100, rect_width = 800, rect_height = 600\<rparr>"

text \<open>A pointer event at a window position over the canvas surface itself.\<close>

definition pointerAt :: "real \<Rightarrow> real \<Rightarrow> MouseEvent" where
  "pointerAt px py = \<lparr>clientX = px, clientY = py, handle = None, targetId = ''main-canvas''\<rparr>"

text \<open>A pointer event on the south-east handle of the crop rectangle.\<close>

definition pointerOnSE :: "real \<Rightarrow> real \<Rightarrow> MouseEvent" where
  "pointerOnSE px py = \<lparr>clientX = px, clientY = py, handle = Some ''se'', targetId = []\<rparr>"

text \<open>A pointer event on the south handle of the crop rectangle.\<close>

definition pointerOnS :: "real \<Rightarrow> real \<Rightarrow> MouseEvent" where
  "pointerOnS px py = \<lparr>clientX = px, clientY = py, handle = Some ''s'', targetId = []\<rparr>"

text \<open>The stroke painted by a press and release at the centre of the image.\<close>

definition demoStroke :: PixelateStroke where
  "demoStroke = \<lparr>points = [(1 / 2, 1 / 2)], radius = 20 / 800\<rparr>"


text \<open>A stroke begun at the centre of the image.\<close>

definition demoPainting :: App where
  "demoPainting =
     run [ToolClick Pixelate, MouseDown (pointerAt 500 400) demoRect (0, 0, 0)] demoLoaded"

text \<open>The crop rectangle dragged by its south-east handle to the top-left quarter.\<close>

definition demoCropped :: App where
  "demoCropped =
     run [ToolClick Crop, MouseDown (pointerOnSE 900 700) demoRect (0, 0, 0),
          MouseMove (pointerOnSE 500 400) demoRect, MouseUp] demoLoaded"

text \<open>The answer of the back end to an apply of a quarter turn of the image.\<close>

definition demoTurned :: ImageInfo where
  "demoTurned = \<lparr>width = 600, height = 800, data_url = ''data:turned''\<rparr>"

text \<open>A larger image opened in a small container.\<close>

definition demoLargeInfo :: ImageInfo where
  "demoLargeInfo = \<lparr>width = 8000, height = 6000, data_url = ''data:large''\<rparr>"

definition demoLarge :: App where
  "demoLarge = run [OpenFile ''b.png'' (Inr demoLargeInfo), ImageLoaded demoLargeInfo 400 300] initialState"


text \<open>The cropped session with the image turned by a quarter, and after a successful apply.\<close>

definition demoTurnedApplied :: App where
  "demoTurnedApplied =
     fst (applyEdits (Inr demoTurned) (Inr ''applied.png'') (run [RotateRightClick] demoCropped))"

text \<open>The cropped session with grayscale switched on, and after a successful apply.\<close>

definition demoGrayApplied :: App where
  "demoGrayApplied =
     fst (applyEdits (Inr demoInfo) (Inr ''applied.png'') (run [GrayscaleChange True] demoCropped))"

text \<open>One stroke painted, and then undone, with the pixelate tool still selected.\<close>

definition demoPainted :: App where
  "demoPainted =
     run [ToolClick Pixelate, MouseDown (pointerAt 500 400) demoRect (0, 0, 0), MouseUp] demoLoaded"



text \<open>
  The session with the aspect locked on a target of 0.4 by 0, which is what
  \<^verbatim>\<open>onCropPresetChange\<close> stores for the preset 1:1 when the crop width field holds 0.4
  (the target height is \<^verbatim>\<open>Math.round(0.4 * (1 / 1))\<close>), and then the south handle of the
  full-frame crop rectangle pressed at the bottom edge of the canvas.
\<close>

definition demoZeroTarget :: App where
  "demoZeroTarget =
     run [ToolClick Crop, MouseDown (pointerOnS 500 700) demoRect (0, 0, 0)]
       (demoLoaded\<lparr>lockAspect := True, targetWidth := 4 / 10, targetHeight := 0\<rparr>)"

text \<open>A surface of two by two pixels of one colour.\<close>

definition demoSurface :: "8 word list" where
  "demoSurface = [10, 20, 30, 255, 10, 20, 30, 255, 10, 20, 30, 255, 10, 20, 30, 255]"

section \<open>The example session, evaluated\<close>

lemmas jsnum_eval =
  zero_jsnum_def one_jsnum_def minus_jsnum_def less_eq_jsnum_def Math_min_def Math_max_def

lemma demoLoaded_eval:
  "demoLoaded =
     \<lparr>sourcePath = Some ''a.png'', imageWidth = 800, imageHeight = 600,
      tool = Select, zoom = 1, panX = 0, panY = 0, cropX = 0, cropY = 0,
      cropW = 1, cropH = 1, targetWidth = 800, targetHeight = 600,
      lockAspect = False, scaleMode = ''scale_then_crop'', grayscale = False,
      brightness = 0, contrast = 0, rotation = 0, flipH = False,
      flipV = False, pixelateStrokes = [], pixelateRedoStack = [],
      pixelateBrushSize = 20, pixelateBlockSize = 10,
      isPixelatePainting = False, currentStroke = None, bgEnabled = False,
      bgColor = (0, 0, 0), bgTolerance = 30, loadedImage = Some ''data:demo'',
      isDragging = False, dragStartX = 0, dragStartY = 0, dragStartPanX = 0,
      dragStartPanY = 0, cropDragMode = None, cropStartX = 0, cropStartY = 0,
      cropStartCropX = 0, cropStartCropY = 0, cropStartCropW = 0,
      cropStartCropH = 0\<rparr>"
  by (simp add: demoLoaded_def initialState_def loadImage_def loadImage_onload_def zoomFit_def
      setZoom_def isRotated_def demoInfo_def Let_def renderCanvas_def)

lemma demoCropped_eval:
  "demoCropped = demoLoaded\<lparr>tool := Crop, cropX := Fin 0, cropY := Fin 0,
     cropW := Fin (1 / 2), cropH := Fin (1 / 2),
     cropStartX := 900, cropStartY := 700, cropStartCropW := 1, cropStartCropH := 1\<rparr>"
  by (simp add: demoCropped_def demoLoaded_eval setTool_def onCanvasMouseDown_def
      onCanvasMouseMove_def onCanvasMouseUp_def pointerOnSE_def truthy_def handleCropDrag_def
      dragRect_def str_includes_def demoRect_def Let_def jsnum_eval)

lemma demoTurnedApplied_eval:
  "demoTurnedApplied =
     demoCropped\<lparr>sourcePath := Some ''applied.png'', imageWidth := 600, imageHeight := 800\<rparr>"
  by (simp add: demoTurnedApplied_def demoCropped_eval demoLoaded_eval onRotateRight_def
      js_rem_def applyEdits_def hasEdits_def demoTurned_def Let_def)

lemma demoGrayApplied_eval:
  "demoGrayApplied = demoCropped\<lparr>sourcePath := Some ''applied.png''\<rparr>"
  by (simp add: demoGrayApplied_def demoCropped_eval demoLoaded_eval onGrayscaleChange_def
      applyEdits_def hasEdits_def demoInfo_def Let_def)

lemma demoLarge_eval:
  "demoLarge =
     demoLoaded\<lparr>sourcePath := Some ''b.png'', imageWidth := 8000, imageHeight := 6000,
       targetWidth := 8000, targetHeight := 6000, zoom := 1 / 10,
       loadedImage := Some ''data:large''\<rparr>"
  by (simp add: demoLarge_def demoLoaded_eval initialState_def loadImage_def
      loadImage_onload_def zoomFit_def setZoom_def isRotated_def demoLargeInfo_def Let_def
      renderCanvas_def)

lemma demoPainting_eval:
  "demoPainting =
     demoLoaded\<lparr>tool := Pixelate, isPixelatePainting := True, currentStroke := Some demoStroke\<rparr>"
  by (simp add: demoPainting_def demoLoaded_eval setTool_def onCanvasMouseDown_def
      getCanvasCoords_def inBounds_def isRotated_def pointerAt_def demoRect_def demoStroke_def
      Let_def)

lemma demoPainted_eval:
  "demoPainted = demoLoaded\<lparr>tool := Pixelate, pixelateStrokes := [demoStroke]\<rparr>"
  by (simp add: demoPainted_def demoLoaded_eval setTool_def onCanvasMouseDown_def
      onCanvasMouseUp_def getCanvasCoords_def renderCanvas_def inBounds_def isRotated_def
      pointerAt_def demoRect_def demoStroke_def Let_def)


section \<open>Crop drag and the frame\<close>

lemma clamp_size:
  "2 / 100 \<le> max (2 / 100) (min 1 (w::real)) \<and> max (2 / 100) (min 1 w) \<le> 1"
  by simp

lemma clamp_origin:
  assumes "(w::real) \<le> 1"
  shows "0 \<le> max 0 (min (1 - w) x) \<and> max 0 (min (1 - w) x) + w \<le> 1"
  using assms by (simp add: max_def min_def)

lemma Math_min_Fin: "Math_min (Fin a) (Fin b) = Fin (min a b)"
  by (simp add: Math_min_def min_def)

lemma Math_max_Fin: "Math_max (Fin a) (Fin b) = Fin (max a b)"
  by (simp add: Math_max_def max_def)

lemma Fin_less_eq: "(Fin a \<le> Fin b) = (a \<le> b)"
  by (auto simp add: less_eq_jsnum_def)

text \<open>
  With a finite snapshot, finite deltas and, where the aspect is locked, a target width
  and height that are not zero, the dragged rectangle is finite.
\<close>

lemma dragRect_finite:
  assumes "cropStartCropX s = Fin x0" and "cropStartCropY s = Fin y0"
    and "cropStartCropW s = Fin w0" and "cropStartCropH s = Fin h0"
    and "lockAspect s \<longrightarrow> targetWidth s \<noteq> 0 \<and> targetHeight s \<noteq> 0"
  shows "\<exists>x y w h. dragRect mode (Fin dx) (Fin dy) s = (Fin x, Fin y, Fin w, Fin h)"
  using assms by (simp add: dragRect_def Let_def minus_jsnum_def)

text \<open>
  The clamp of \<^verbatim>\<open>handleCropDrag\<close> on a finite rectangle: the six inequalities of the crop
  rectangle hold.
\<close>

lemma handleCropDrag_finite_in_frame:
  assumes "cropStartCropX s = Fin x0" and "cropStartCropY s = Fin y0"
    and "cropStartCropW s = Fin w0" and "cropStartCropH s = Fin h0"
    and "lockAspect s \<longrightarrow> targetWidth s \<noteq> 0 \<and> targetHeight s \<noteq> 0"
  shows "let s' = handleCropDrag mode (Fin dx) (Fin dy) s in
           0 \<le> cropX s' \<and> 0 \<le> cropY s' \<and>
           cropX s' + cropW s' \<le> 1 \<and> cropY s' + cropH s' \<le> 1 \<and>
           Fin (2 / 100) \<le> cropW s' \<and> Fin (2 / 100) \<le> cropH s'"
proof -
  obtain x y w h where d: "dragRect mode (Fin dx) (Fin dy) s = (Fin x, Fin y, Fin w, Fin h)"
    using dragRect_finite [OF assms] by blast
  define w' where "w' = max (2 / 100) (min 1 w)"
  define h' where "h' = max (2 / 100) (min 1 h)"
  define s' where "s' = handleCropDrag mode (Fin dx) (Fin dy) s"
  have fields: "cropW s' = Fin w'" "cropH s' = Fin h'"
    "cropX s' = Fin (max 0 (min (1 - w') x))" "cropY s' = Fin (max 0 (min (1 - h') y))"
    by (simp_all add: s'_def handleCropDrag_def d Let_def w'_def h'_def Math_min_Fin Math_max_Fin
        zero_jsnum_def one_jsnum_def minus_jsnum_def)
  have w: "2 / 100 \<le> w' \<and> w' \<le> 1" unfolding w'_def by (rule clamp_size)
  have h: "2 / 100 \<le> h' \<and> h' \<le> 1" unfolding h'_def by (rule clamp_size)
  have x: "0 \<le> max 0 (min (1 - w') x) \<and> max 0 (min (1 - w') x) + w' \<le> 1"
    using w by (intro clamp_origin) simp
  have y: "0 \<le> max 0 (min (1 - h') y) \<and> max 0 (min (1 - h') y) + h' \<le> 1"
    using h by (intro clamp_origin) simp
  have "0 \<le> cropX s' \<and> 0 \<le> cropY s' \<and>
        cropX s' + cropW s' \<le> 1 \<and> cropY s' + cropH s' \<le> 1 \<and>
        Fin (2 / 100) \<le> cropW s' \<and> Fin (2 / 100) \<le> cropH s'"
    unfolding fields zero_jsnum_def one_jsnum_def plus_jsnum.simps Fin_less_eq
    using w h x y by blast
  then show ?thesis
    unfolding Let_def s'_def .
qed

lemma demoZeroTarget_eval:
  "demoZeroTarget =
     demoLoaded\<lparr>tool := Crop, lockAspect := True, targetWidth := 4 / 10, targetHeight := 0,
       cropDragMode := Some ''s'', cropStartX := 500, cropStartY := 700,
       cropStartCropW := 1, cropStartCropH := 1\<rparr>"
  by (simp add: demoZeroTarget_def demoLoaded_eval setTool_def onCanvasMouseDown_def
      pointerOnS_def truthy_def Let_def)

text \<open>
  C1. After every crop drag the stored rectangle should satisfy \<open>0 \<le> x\<close>, \<open>0 \<le> y\<close>,
  \<open>x + w \<le> 1\<close>, \<open>y + h \<le> 1\<close>, \<open>w \<ge> 0.02\<close> and \<open>h \<ge> 0.02\<close>, by the clamp of the width
  and height followed by the clamp of the origin. The code breaks this where the aspect
  is locked on a target height of zero: the south handle of the full-frame rectangle,
  dragged up by the height of the canvas, gives the height 0 and the width
  \<open>0 * Infinity\<close>, which is \<^verbatim>\<open>NaN\<close>. \<^verbatim>\<open>Math.min\<close> and \<^verbatim>\<open>Math.max\<close> keep it, so that the
  stored width and the stored \<open>x\<close> are \<^verbatim>\<open>NaN\<close>, and \<open>0 \<le> x\<close>, \<open>x + w \<le> 1\<close> and
  \<open>w \<ge> 0.02\<close> are all false.
\<close>

theorem handleCropDrag_zero_target_height:
  "fst (onCanvasMouseMove (pointerOnS 500 100) demoRect demoZeroTarget)
     = handleCropDrag ''s'' (Fin 0) (Fin (- 1)) demoZeroTarget \<and>
   dragRect ''s'' (Fin 0) (Fin (- 1)) demoZeroTarget = (Fin 0, Fin 0, NaN, Fin 0) \<and>
   cropX (handleCropDrag ''s'' (Fin 0) (Fin (- 1)) demoZeroTarget) = NaN \<and>
   cropY (handleCropDrag ''s'' (Fin 0) (Fin (- 1)) demoZeroTarget) = Fin 0 \<and>
   cropW (handleCropDrag ''s'' (Fin 0) (Fin (- 1)) demoZeroTarget) = NaN \<and>
   cropH (handleCropDrag ''s'' (Fin 0) (Fin (- 1)) demoZeroTarget) = Fin (2 / 100) \<and>
   \<not> 0 \<le> cropX (handleCropDrag ''s'' (Fin 0) (Fin (- 1)) demoZeroTarget) \<and>
   \<not> cropX (handleCropDrag ''s'' (Fin 0) (Fin (- 1)) demoZeroTarget)
       + cropW (handleCropDrag ''s'' (Fin 0) (Fin (- 1)) demoZeroTarget) \<le> 1 \<and>
   \<not> Fin (2 / 100) \<le> cropW (handleCropDrag ''s'' (Fin 0) (Fin (- 1)) demoZeroTarget)"
  by (simp add: demoZeroTarget_eval demoLoaded_eval onCanvasMouseMove_def truthy_def
      pointerOnS_def demoRect_def handleCropDrag_def dragRect_def str_includes_def Let_def
      jsnum_eval)

section \<open>Undo and redo\<close>

text \<open>
  C4. With a non-empty applied sequence, \<^verbatim>\<open>undoStroke\<close> followed by \<^verbatim>\<open>redoStroke\<close> gives
  back the state it started from, so the applied sequence (and the redo sequence) has its
  strokes, their points and radii, in the order they had before. \<^verbatim>\<open>undoStroke\<close> on an
  empty applied sequence and \<^verbatim>\<open>redoStroke\<close> on an empty redo sequence change nothing.
\<close>

theorem undo_then_redo:
  "(pixelateStrokes s \<noteq> [] \<longrightarrow> fst (redoStroke (fst (undoStroke s))) = s) \<and>
   (pixelateStrokes s = [] \<longrightarrow> fst (undoStroke s) = s) \<and>
   (pixelateRedoStack s = [] \<longrightarrow> fst (redoStroke s) = s)"
  by (simp add: undoStroke_def redoStroke_def Let_def)

text \<open>Instances of C4: a session with one stroke, and one with none.\<close>

theorem undo_then_redo_witness:
  "pixelateStrokes demoPainted \<noteq> [] \<and>
   fst (redoStroke (fst (undoStroke demoPainted))) = demoPainted \<and>
   pixelateStrokes demoLoaded = [] \<and> fst (undoStroke demoLoaded) = demoLoaded \<and>
   pixelateRedoStack demoLoaded = [] \<and> fst (redoStroke demoLoaded) = demoLoaded"
  using undo_then_redo [of demoPainted] undo_then_redo [of demoLoaded]
  by (simp add: demoPainted_eval demoLoaded_eval)


section \<open>Fit zoom\<close>

text \<open>
  C5, as the code has it. With an image loaded, \<^verbatim>\<open>zoomFit\<close> resets the pan offset to
  \<open>(0, 0)\<close> and sets the zoom to
  \<open>min ((containerW - 40) / dispW, (containerH - 40) / dispH, 1)\<close> raised to the lower
  bound 0.1 of \<^verbatim>\<open>setZoom\<close>; the zoom is that minimum itself whenever the minimum is at
  least 0.1. The displayed width and height are the natural ones, swapped for a rotation
  of 90 or 270.
\<close>

theorem zoomFit_clamped:
  assumes "loadedImage s \<noteq> None" and "imageWidth s > 0" and "imageHeight s > 0"
  shows "let dispW = (if rotation s = 90 \<or> rotation s = 270 then imageHeight s else imageWidth s);
             dispH = (if rotation s = 90 \<or> rotation s = 270 then imageWidth s else imageHeight s);
             fit = min ((cw - 40) / dispW) (min ((ch - 40) / dispH) 1);
             s' = fst (zoomFit cw ch s)
         in zoom s' = max (1 / 10) fit \<and> (fit \<ge> 1 / 10 \<longrightarrow> zoom s' = fit) \<and>
            panX s' = 0 \<and> panY s' = 0"
proof -
  define dispW where
    "dispW = (if rotation s = 90 \<or> rotation s = 270 then imageHeight s else imageWidth s)"
  define dispH where
    "dispH = (if rotation s = 90 \<or> rotation s = 270 then imageWidth s else imageHeight s)"
  define fit where "fit = min ((cw - 40) / dispW) (min ((ch - 40) / dispH) 1)"
  have le: "fit \<le> 1" by (simp add: fit_def)
  then have m5: "min 5 fit = fit" by simp
  have z: "zoomFit cw ch s = setZoom fit (s\<lparr>panX := 0, panY := 0\<rparr>)"
    using assms(1)
    by (auto simp add: zoomFit_def isRotated_def Let_def fit_def dispW_def dispH_def)
  have "zoom (fst (zoomFit cw ch s)) = max (1 / 10) fit"
    by (simp add: z setZoom_def Let_def m5)
  moreover have "panX (fst (zoomFit cw ch s)) = 0" "panY (fst (zoomFit cw ch s)) = 0"
    by (simp_all add: z setZoom_def Let_def)
  ultimately show ?thesis
    unfolding Let_def dispW_def [symmetric] dispH_def [symmetric] fit_def [symmetric]
    by (simp add: max_def)
qed

text \<open>
  An instance of C5: the 800 by 600 image in a container of 400 by 300 gets the zoom
  \<open>min (360 / 800, 260 / 600, 1) = 13 / 30\<close>.
\<close>

theorem zoomFit_clamped_witness:
  "loadedImage demoLoaded \<noteq> None \<and> imageWidth demoLoaded > 0 \<and> imageHeight demoLoaded > 0 \<and>
   zoom (fst (zoomFit 400 300 demoLoaded)) = 13 / 30 \<and>
   panX (fst (zoomFit 400 300 demoLoaded)) = 0 \<and> panY (fst (zoomFit 400 300 demoLoaded)) = 0"
  using zoomFit_clamped [of demoLoaded 400 300]
  by (simp add: demoLoaded_eval Let_def)

text \<open>
  C5 as stated fails for an image much larger than its container: an image of 8000 by
  6000 in a container of 400 by 300 gets the zoom 0.1, and the minimum is \<open>13 / 300\<close>.
\<close>

theorem zoomFit_large_image:
  "loadedImage demoLarge \<noteq> None \<and>
   zoom (fst (zoomFit 400 300 demoLarge)) = 1 / 10 \<and>
   min ((400 - 40) / imageWidth demoLarge) (min ((300 - 40) / imageHeight demoLarge) 1) = 13 / 300"
  by (simp add: demoLarge_eval demoLoaded_eval zoomFit_def setZoom_def isRotated_def Let_def)

section \<open>Export\<close>

text \<open>
  C6. When \<^verbatim>\<open>doExport\<close> sends its request (a source path is set and the save dialog
  gave a path), the request is the only one, and its crop field is present exactly when
  \<open>x > 0\<close> or \<open>y > 0\<close> or \<open>w < 1\<close> or \<open>h < 1\<close>; it then holds the crop rectangle. For
  the full frame \<open>x = 0, y = 0, w = 1, h = 1\<close> the field is null.
\<close>

theorem doExport_crop_field:
  assumes "sourcePath s = Some src" and "src \<noteq> []" and "out \<noteq> []"
  shows "\<exists>p. requests (doExport format quality (Some out) resp s) = [ExportImage p] \<and>
           (ex_crop p \<noteq> None \<longleftrightarrow> cropX s > 0 \<or> cropY s > 0 \<or> cropW s < 1 \<or> cropH s < 1) \<and>
           (\<forall>c. ex_crop p = Some c \<longrightarrow>
                c = \<lparr>crop_x = cropX s, crop_y = cropY s,
                     crop_width = cropW s, crop_height = cropH s\<rparr>) \<and>
           (cropX s = 0 \<and> cropY s = 0 \<and> cropW s = 1 \<and> cropH s = 1 \<longrightarrow> ex_crop p = None)"
  using assms by (cases resp) (auto simp add: doExport_def exportPayload_def jsnum_eval)

text \<open>Instances of C6: the session cropped to a quarter, and the session with the full frame.\<close>

theorem doExport_crop_field_witness:
  "sourcePath demoCropped = Some ''a.png'' \<and>
   (\<exists>p. requests (doExport ''png'' 90 (Some ''out.png'') (Inr ()) demoCropped) = [ExportImage p] \<and>
        ex_crop p = Some \<lparr>crop_x = Fin 0, crop_y = Fin 0,
                           crop_width = Fin (1 / 2), crop_height = Fin (1 / 2)\<rparr>) \<and>
   sourcePath demoLoaded = Some ''a.png'' \<and>
   (\<exists>p. requests (doExport ''png'' 90 (Some ''out.png'') (Inr ()) demoLoaded) = [ExportImage p] \<and>
        ex_crop p = None)"
  using doExport_crop_field [of demoCropped "''a.png''" "''out.png''" "''png''" 90 "Inr ()"]
    doExport_crop_field [of demoLoaded "''a.png''" "''out.png''" "''png''" 90 "Inr ()"]
  by (auto simp add: demoCropped_eval demoLoaded_eval jsnum_eval)

section \<open>Apply\<close>

text \<open>
  C10. With rotation 0, no flip, no grayscale, brightness and contrast 0 and no applied
  stroke, \<^verbatim>\<open>applyEdits\<close> sends no request and returns the state it was given, whatever
  the crop rectangle, the target size, the background-removal settings and the source
  path are.
\<close>

theorem applyEdits_without_edits:
  assumes "rotation s = 0" and "\<not> flipH s" and "\<not> flipV s" and "\<not> grayscale s"
    and "brightness s = 0" and "contrast s = 0" and "pixelateStrokes s = []"
  shows "fst (applyEdits r1 r2 s) = s \<and> requests (snd (applyEdits r1 r2 s)) = []"
proof -
  from assms have "\<not> hasEdits s" by (simp add: hasEdits_def)
  then show ?thesis by (simp add: applyEdits_def split: option.split)
qed

text \<open>An instance of C10: the session with a crop pending and no adjustment.\<close>

theorem applyEdits_without_edits_witness:
  "rotation demoCropped = 0 \<and> \<not> flipH demoCropped \<and> \<not> flipV demoCropped \<and>
   \<not> grayscale demoCropped \<and> brightness demoCropped = 0 \<and> contrast demoCropped = 0 \<and>
   pixelateStrokes demoCropped = [] \<and> cropW demoCropped = Fin (1 / 2) \<and>
   fst (applyEdits (Inr demoTurned) (Inr ''applied.png'') demoCropped) = demoCropped \<and>
   requests (snd (applyEdits (Inr demoTurned) (Inr ''applied.png'') demoCropped)) = []"
  using applyEdits_without_edits [of demoCropped "Inr demoTurned" "Inr ''applied.png''"]
  by (simp add: demoCropped_eval demoLoaded_eval)

text \<open>
  C2, as the code has it. After a successful apply the adjustments that the request
  carried are back at their defaults (rotation 0, no flip, no grayscale, brightness and
  contrast 0) and both stroke sequences are empty; the source path is the applied path
  and the natural width and height are those of the answer. Every other field keeps its
  value: the crop rectangle, the target width and height, the background-removal
  settings, and the rest of the state.
\<close>

theorem applyEdits_success:
  assumes "sourcePath s = Some src" and "src \<noteq> []" and "hasEdits s"
  shows "let s' = fst (applyEdits (Inr info) (Inr appliedPath) s) in
           rotation s' = 0 \<and> \<not> flipH s' \<and> \<not> flipV s' \<and> \<not> grayscale s' \<and>
           brightness s' = 0 \<and> contrast s' = 0 \<and>
           pixelateStrokes s' = [] \<and> pixelateRedoStack s' = [] \<and>
           sourcePath s' = Some appliedPath \<and>
           imageWidth s' = width info \<and> imageHeight s' = height info \<and>
           cropX s' = cropX s \<and> cropY s' = cropY s \<and> cropW s' = cropW s \<and> cropH s' = cropH s \<and>
           targetWidth s' = targetWidth s \<and> targetHeight s' = targetHeight s \<and>
           bgEnabled s' = bgEnabled s \<and> bgColor s' = bgColor s \<and> bgTolerance s' = bgTolerance s \<and>
           s'\<lparr>sourcePath := sourcePath s, imageWidth := imageWidth s, imageHeight := imageHeight s,
              rotation := rotation s, flipH := flipH s, flipV := flipV s,
              grayscale := grayscale s, brightness := brightness s, contrast := contrast s,
              pixelateStrokes := pixelateStrokes s,
              pixelateRedoStack := pixelateRedoStack s\<rparr> = s"
  using assms by (simp add: applyEdits_def Let_def)

text \<open>
  An instance of C2: the cropped session, turned by a quarter and applied. The answer is
  an image of 600 by 800.
\<close>

theorem applyEdits_success_witness:
  "sourcePath (run [RotateRightClick] demoCropped) = Some ''a.png'' \<and>
   hasEdits (run [RotateRightClick] demoCropped) \<and>
   rotation demoTurnedApplied = 0 \<and> pixelateStrokes demoTurnedApplied = [] \<and>
   sourcePath demoTurnedApplied = Some ''applied.png'' \<and>
   imageWidth demoTurnedApplied = 600 \<and> imageHeight demoTurnedApplied = 800 \<and>
   cropW demoTurnedApplied = Fin (1 / 2) \<and> targetWidth demoTurnedApplied = 800"
  using applyEdits_success
    [of "run [RotateRightClick] demoCropped" "''a.png''" demoTurned "''applied.png''"]
  by (simp add: demoTurnedApplied_def demoCropped_eval demoLoaded_eval onRotateRight_def
      js_rem_def hasEdits_def demoTurned_def Let_def)

text \<open>
  C2 as stated fails there: after the apply the crop rectangle is still the quarter, not
  the full frame, and the target size is still 800 by 600, not the 600 by 800 of the
  answer.
\<close>

theorem applyEdits_keeps_crop_and_target:
  "sourcePath demoTurnedApplied = Some ''applied.png'' \<and> rotation demoTurnedApplied = 0 \<and>
   cropW demoTurnedApplied \<noteq> 1 \<and> cropH demoTurnedApplied \<noteq> 1 \<and>
   targetWidth demoTurnedApplied \<noteq> width demoTurned \<and>
   targetHeight demoTurnedApplied \<noteq> height demoTurned"
  by (simp add: demoTurnedApplied_eval demoCropped_eval demoLoaded_eval demoTurned_def
      jsnum_eval)

section \<open>The crop rectangle of a new image\<close>

text \<open>
  C8, as the code has it. A successful open resets the crop rectangle to the full frame
  \<open>x = 0, y = 0, w = 1, h = 1\<close>. An apply, successful or not, leaves the crop rectangle
  as it is.
\<close>

theorem crop_reset_on_open_only:
  "(let s' = fst (loadImage path (Inr info) s)
    in cropX s' = 0 \<and> cropY s' = 0 \<and> cropW s' = 1 \<and> cropH s' = 1) \<and>
   (let s' = fst (applyEdits r1 r2 s)
    in cropX s' = cropX s \<and> cropY s' = cropY s \<and> cropW s' = cropW s \<and> cropH s' = cropH s)"
  by (simp add: loadImage_def applyEdits_def Let_def split: option.split sum.split)

text \<open>An instance of C8: the cropped session with grayscale on, reopened or applied.\<close>

theorem crop_reset_on_open_only_witness:
  "cropW demoCropped = Fin (1 / 2) \<and>
   cropW (fst (loadImage ''c.png'' (Inr demoInfo) (run [GrayscaleChange True] demoCropped))) = 1 \<and>
   cropH (fst (loadImage ''c.png'' (Inr demoInfo) (run [GrayscaleChange True] demoCropped))) = 1 \<and>
   cropW (fst (applyEdits (Inr demoInfo) (Inr ''applied.png'')
            (run [GrayscaleChange True] demoCropped))) = Fin (1 / 2)"
  using crop_reset_on_open_only [of "''c.png''" demoInfo "run [GrayscaleChange True] demoCropped"
      "Inr demoInfo" "Inr ''applied.png''"]
  by (simp add: demoCropped_eval demoLoaded_eval onGrayscaleChange_def Let_def)

text \<open>
  C8 as stated fails on apply: the cropped session with grayscale on, applied with
  success, continues from the applied file with the crop rectangle still at the quarter.
\<close>

theorem apply_keeps_crop_rectangle:
  "sourcePath demoGrayApplied = Some ''applied.png'' \<and> \<not> grayscale demoGrayApplied \<and>
   (cropX demoGrayApplied, cropY demoGrayApplied, cropW demoGrayApplied, cropH demoGrayApplied)
     = (Fin 0, Fin 0, Fin (1 / 2), Fin (1 / 2))"
  by (simp add: demoGrayApplied_eval demoCropped_eval demoLoaded_eval)


section \<open>Painting a stroke\<close>

text \<open>
  C7, as the code has it. While a stroke is in progress, a pointer move leaves the
  applied stroke sequence as it was. A move to a position inside the image appends the
  position to the in-progress stroke and draws the canvas once, with the applied strokes
  followed by the in-progress stroke: the drawing that the end of the gesture would make
  at that moment. A move to a position outside the image draws nothing and changes
  nothing.
\<close>

theorem mouse_move_while_painting:
  assumes "tool s = Pixelate" and "isPixelatePainting s" and "currentStroke s = Some c"
    and "loadedImage s = Some img"
    and "imageWidth s > 0" and "imageHeight s > 0" and "rect_width rect > 0" and "rect_height rect > 0"
  shows "let p = getCanvasCoords e rect s;
             c' = c\<lparr>points := points c @ [p]\<rparr>;
             s' = fst (onCanvasMouseMove e rect s);
             fx = snd (onCanvasMouseMove e rect s)
         in pixelateStrokes s' = pixelateStrokes s \<and>
            (if inBounds p
             then s' = s\<lparr>currentStroke := Some c'\<rparr> \<and>
                  fx = [Render (frameOf img (s\<lparr>pixelateStrokes := pixelateStrokes s @ [c']\<rparr>))] \<and>
                  fx = snd (onCanvasMouseUp s')
             else s' = s \<and> fx = [])"
  using assms
  by (simp add: onCanvasMouseMove_def onCanvasMouseUp_def renderCanvas_def frameOf_def Let_def)

text \<open>An instance of C7: the stroke begun at the centre, and a move to (300, 200).\<close>

theorem mouse_move_while_painting_witness:
  "tool demoPainting = Pixelate \<and> isPixelatePainting demoPainting \<and>
   currentStroke demoPainting = Some demoStroke \<and> loadedImage demoPainting = Some ''data:demo'' \<and>
   imageWidth demoPainting > 0 \<and> imageHeight demoPainting > 0 \<and>
   rect_width demoRect > 0 \<and> rect_height demoRect > 0 \<and>
   getCanvasCoords (pointerAt 300 200) demoRect demoPainting = (1 / 4, 1 / 6) \<and>
   pixelateStrokes (fst (onCanvasMouseMove (pointerAt 300 200) demoRect demoPainting)) = [] \<and>
   currentStroke (fst (onCanvasMouseMove (pointerAt 300 200) demoRect demoPainting))
     = Some \<lparr>points = [(1 / 2, 1 / 2), (1 / 4, 1 / 6)], radius = 20 / 800\<rparr> \<and>
   snd (onCanvasMouseMove (pointerAt 300 200) demoRect demoPainting)
     = [Render (frameOf ''data:demo''
          (demoPainting\<lparr>pixelateStrokes :=
             [\<lparr>points = [(1 / 2, 1 / 2), (1 / 4, 1 / 6)], radius = 20 / 800\<rparr>]\<rparr>))]"
  using mouse_move_while_painting [of demoPainting demoStroke "''data:demo''" demoRect "pointerAt 300 200"]
  by (simp add: demoPainting_eval demoLoaded_eval getCanvasCoords_def
       inBounds_def isRotated_def pointerAt_def demoRect_def demoStroke_def Let_def)

text \<open>
  C7 as stated fails for a move outside the image: with the stroke begun at the centre,
  a move to the right of the image draws nothing.
\<close>

theorem move_outside_image_draws_nothing:
  "tool demoPainting = Pixelate \<and> isPixelatePainting demoPainting \<and>
   currentStroke demoPainting = Some demoStroke \<and>
   snd (onCanvasMouseMove (pointerAt 1000 400) demoRect demoPainting) = []"
  by (simp add: demoPainting_eval demoLoaded_eval onCanvasMouseMove_def getCanvasCoords_def
       inBounds_def isRotated_def pointerAt_def demoRect_def Let_def)

lemma getCanvasCoords_stroke [simp]:
  "getCanvasCoords e r (s\<lparr>currentStroke := v\<rparr>) = getCanvasCoords e r s"
  by (simp add: getCanvasCoords_def isRotated_def)










section \<open>Block averaging of a uniform cell\<close>

lemma Math_round_of_nat: "Math_round (real n) = int n"
  unfolding Math_round_def by linarith

lemma meanByte_uniform:
  assumes "n > 0"
  shows "meanByte (Some (n * unat v)) n = v"
proof -
  have "real (n * unat v) / real n = real (unat v)"
    using assms by simp
  then have m: "Math_round (real (n * unat v) / real n) = int (unat v)"
    by (simp only: Math_round_of_nat)
  have "uint v < 2 ^ LENGTH(8)" by (rule uint_bounded)
  then have b: "\<not> uint v > 255" by simp
  show ?thesis
    unfolding meanByte_def option.case Let_def m using b by simp
qed

lemma addByte_in_range: "i < length data \<Longrightarrow> addByte (Some n) data i = Some (n + unat (data ! i))"
  by (simp add: addByte_def)

lemma sumStep_uniform:
  assumes "idx + 3 < length data" and "data ! idx = r" and "data ! (idx + 1) = g"
    and "data ! (idx + 2) = b" and "data ! (idx + 3) = a"
  shows "sumStep data idx (Some r0, Some g0, Some b0, Some a0, n0) =
         (Some (r0 + unat r), Some (g0 + unat g), Some (b0 + unat b), Some (a0 + unat a), n0 + 1)"
proof -
  have "idx < length data" "idx + 1 < length data" "idx + 2 < length data"
    using assms(1) by simp_all
  then show ?thesis
    unfolding sumStep_def prod.case
    by (simp only: addByte_in_range assms)
qed

lemma cellSums_uniform:
  assumes "\<forall>idx \<in> set idxs. idx + 3 < length data \<and> data ! idx = r \<and> data ! (idx + 1) = g \<and>
             data ! (idx + 2) = b \<and> data ! (idx + 3) = a"
  shows "fold (sumStep data) idxs (Some r0, Some g0, Some b0, Some a0, n0)
         = (Some (r0 + length idxs * unat r), Some (g0 + length idxs * unat g),
            Some (b0 + length idxs * unat b), Some (a0 + length idxs * unat a), n0 + length idxs)"
  using assms
proof (induction idxs arbitrary: r0 g0 b0 a0 n0)
  case Nil
  then show ?case by simp
next
  case (Cons i idxs)
  have step: "sumStep data i (Some r0, Some g0, Some b0, Some a0, n0) =
         (Some (r0 + unat r), Some (g0 + unat g), Some (b0 + unat b), Some (a0 + unat a), n0 + 1)"
    using Cons.prems by (intro sumStep_uniform) simp_all
  have rest: "\<forall>idx \<in> set idxs. idx + 3 < length data \<and> data ! idx = r \<and> data ! (idx + 1) = g \<and>
             data ! (idx + 2) = b \<and> data ! (idx + 3) = a"
    using Cons.prems by simp
  show ?case
    by (simp add: step Cons.IH [OF rest])
qed

lemma fillStep_uniform:
  assumes "data ! idx = r" and "data ! (idx + 1) = g"
    and "data ! (idx + 2) = b" and "data ! (idx + 3) = a"
  shows "fillStep r g b a idx data = data"
proof -
  have "data[idx := data ! idx, idx + 1 := data ! (idx + 1), idx + 2 := data ! (idx + 2),
             idx + 3 := data ! (idx + 3)] = data"
    by (simp only: list_update_id)
  then show ?thesis
    unfolding fillStep_def by (simp only: assms)
qed

lemma cellFill_uniform:
  assumes "\<forall>idx \<in> set idxs. idx + 3 < length data \<and> data ! idx = r \<and> data ! (idx + 1) = g \<and>
             data ! (idx + 2) = b \<and> data ! (idx + 3) = a"
  shows "cellFill r g b a idxs data = data"
  using assms
proof (induction idxs)
  case Nil
  then show ?case by (simp add: cellFill_def)
next
  case (Cons i idxs)
  have "fillStep r g b a i data = data"
    using Cons.prems by (intro fillStep_uniform) simp_all
  then show ?case
    using Cons by (simp add: cellFill_def)
qed

lemma cellPixels_mem:
  "idx \<in> set (cellPixels dw bx by bx2 by2) \<Longrightarrow>
     \<exists>py px. by \<le> py \<and> py < by2 \<and> bx \<le> px \<and> px < bx2 \<and> idx = (py * dw + px) * 4"
  by (auto simp add: cellPixels_def)

text \<open>
  C9. When every pixel of a cell lies in the surface and holds the same four channel
  values, averaging the cell leaves the whole surface as it was: each rounded mean is the
  common value.
\<close>

theorem averageCell_uniform:
  assumes "\<forall>py px. by \<le> py \<and> py < by2 \<and> bx \<le> px \<and> px < bx2 \<longrightarrow>
             (py * dw + px) * 4 + 3 < length data \<and>
             data ! ((py * dw + px) * 4) = r \<and> data ! ((py * dw + px) * 4 + 1) = g \<and>
             data ! ((py * dw + px) * 4 + 2) = b \<and> data ! ((py * dw + px) * 4 + 3) = a"
  shows "averageCell data dw bx by bx2 by2 = data"
proof -
  define idxs where "idxs = cellPixels dw bx by bx2 by2"
  have u: "\<forall>idx \<in> set idxs. idx + 3 < length data \<and> data ! idx = r \<and> data ! (idx + 1) = g \<and>
             data ! (idx + 2) = b \<and> data ! (idx + 3) = a"
    unfolding idxs_def using assms by (auto dest!: cellPixels_mem)
  have sums: "cellSums data idxs =
      (Some (length idxs * unat r), Some (length idxs * unat g),
       Some (length idxs * unat b), Some (length idxs * unat a), length idxs)"
    unfolding cellSums_def using cellSums_uniform [OF u, of 0 0 0 0 0] by simp
  show ?thesis
  proof (cases "length idxs > 0")
    case True
    then show ?thesis
      unfolding averageCell_def Let_def idxs_def [symmetric] sums prod.case
      by (simp add: meanByte_uniform cellFill_uniform [OF u])
  next
    case False
    then show ?thesis
      unfolding averageCell_def Let_def idxs_def [symmetric] sums prod.case by simp
  qed
qed

text \<open>An instance of C9: the cell that covers a surface of two by two pixels of one colour.\<close>

theorem averageCell_uniform_witness:
  "averageCell demoSurface 2 0 0 2 2 = demoSurface \<and> length demoSurface = 16"
proof -
  have "\<forall>py px. (0::nat) \<le> py \<and> py < 2 \<and> (0::nat) \<le> px \<and> px < 2 \<longrightarrow>
             (py * 2 + px) * 4 + 3 < length demoSurface \<and>
             demoSurface ! ((py * 2 + px) * 4) = 10 \<and> demoSurface ! ((py * 2 + px) * 4 + 1) = 20 \<and>
             demoSurface ! ((py * 2 + px) * 4 + 2) = 30 \<and> demoSurface ! ((py * 2 + px) * 4 + 3) = 255"
  proof (intro allI impI)
    fix py px :: nat
    assume "0 \<le> py \<and> py < 2 \<and> 0 \<le> px \<and> px < 2"
    then have "(py = 0 \<or> py = 1) \<and> (px = 0 \<or> px = 1)" by auto
    then show "(py * 2 + px) * 4 + 3 < length demoSurface \<and>
             demoSurface ! ((py * 2 + px) * 4) = 10 \<and> demoSurface ! ((py * 2 + px) * 4 + 1) = 20 \<and>
             demoSurface ! ((py * 2 + px) * 4 + 2) = 30 \<and> demoSurface ! ((py * 2 + px) * 4 + 3) = 255"
      by (auto simp add: demoSurface_def)
  qed
  then show ?thesis
    using averageCell_uniform [of 0 2 0 2 2 demoSurface 10 20 30 255]
    by (simp add: demoSurface_def)
qed

end
